theory Spec2Isabelle
  imports Main "HOL-Library.Sublist"
begin

section \<open>Python values and exceptions\<close>

text \<open>
  The program is \<^verbatim>\<open>src/main.py\<close>: a class \<^verbatim>\<open>ExamQuestionGenerator\<close> with five operations
  that build a prompt, call a chat collaborator, and recover a JSON object from the reply
  with \<^verbatim>\<open>_parse_json\<close>; and a menu loop \<^verbatim>\<open>main\<close>.

  A Python \<^verbatim>\<open>str\<close> is modelled as a \<^typ>\<open>string\<close>, one \<^typ>\<open>char\<close> for each code point
  (so the model covers text whose code points are below 256). A Python \<^verbatim>\<open>int\<close> is an
  \<^typ>\<open>int\<close>. The values the JSON decoder can return are the datatype \<open>json\<close>; a
  \<^verbatim>\<open>dict\<close> is an association list in insertion order, looked up with \<^const>\<open>map_of\<close>.
  A \<^verbatim>\<open>float\<close> is carried as a value no function of the program inspects.
\<close>

datatype py_float = PyFinite int int | PyInf bool | PyNaN

datatype json =
    JNull
  | JBool bool
  | JInt int
  | JFloat py_float
  | JString string
  | JArray "json list"
  | JObject "(string \<times> json) list"

datatype py_error =
    JSONDecodeError
  | RecursionError
  | TypeError
  | AttributeError
  | ChatError string

text \<open>The decoder \<^verbatim>\<open>json.loads\<close> belongs to the Python standard library, not to the
  repository: it is a parameter of the model, a function that returns a value or raises.\<close>

type_synonym loads = "string \<Rightarrow> py_error + json"

text \<open>The chat collaborator \<^verbatim>\<open>ollama.chat(model=..., messages=[...])['message']['content']\<close>:
  given the model name and the prompt it returns the reply text or raises.\<close>

type_synonym chat = "string \<Rightarrow> string \<Rightarrow> py_error + string"

fun is_dict :: "json \<Rightarrow> bool" where
  "is_dict (JObject kvs) = True"
| "is_dict _ = False"

subsection \<open>String operations of Python used by the program\<close>

text \<open>\<^verbatim>\<open>s.find(c)\<close> for a one-character \<^verbatim>\<open>c\<close>: the lowest index of \<^verbatim>\<open>c\<close>, or -1.\<close>

fun py_find :: "string \<Rightarrow> char \<Rightarrow> int" where
  "py_find [] c = -1"
| "py_find (x # xs) c =
     (if x = c then 0
      else (let r = py_find xs c in if r = -1 then -1 else r + 1))"

text \<open>\<^verbatim>\<open>s.rfind(c)\<close>: the highest index of \<^verbatim>\<open>c\<close>, or -1.\<close>

fun py_rfind :: "string \<Rightarrow> char \<Rightarrow> int" where
  "py_rfind [] c = -1"
| "py_rfind (x # xs) c =
     (let r = py_rfind xs c in
      if r \<noteq> -1 then r + 1 else if x = c then 0 else -1)"

text \<open>\<^verbatim>\<open>s[i:j]\<close>: a negative bound counts from the end, and both bounds are clipped to
  the string.\<close>

definition py_clip :: "nat \<Rightarrow> int \<Rightarrow> nat" where
  "py_clip n i = (if i < 0 then nat (max (i + int n) 0) else min (nat i) n)"

definition py_slice :: "'a list \<Rightarrow> int \<Rightarrow> int \<Rightarrow> 'a list" where
  "py_slice xs i j =
     (let a = py_clip (length xs) i; b = py_clip (length xs) j
      in take (b - a) (drop a xs))"

section \<open>The Response Extractor\<close>

text \<open>
  \<^verbatim>\<open>
  def _parse_json(self, content: str) -> dict:
      try:
          start = content.find('{')
          end = content.rfind('}') + 1
          if start != -1 and end > start:
              return json.loads(content[start:end])
      except:
          pass
      return {"raw_response": content}
  \<close>
  The body of the \<^verbatim>\<open>try\<close> either raises (\<open>Inl\<close>), returns a value (\<open>Inr (Some v)\<close>) or
  falls through (\<open>Inr None\<close>). The bare \<^verbatim>\<open>except: pass\<close> catches every exception and
  falls through to the last \<^verbatim>\<open>return\<close>.
\<close>

definition fallback :: "string \<Rightarrow> json" where
  "fallback content = JObject [(''raw_response'', JString content)]"

definition parse_json_try :: "loads \<Rightarrow> string \<Rightarrow> py_error + json option" where
  "parse_json_try loads content =
     (let start = py_find content CHR ''{'';
          endp = py_rfind content CHR ''}'' + 1
      in if start \<noteq> -1 \<and> endp > start
         then (case loads (py_slice content start endp) of
                 Inl e \<Rightarrow> Inl e
               | Inr v \<Rightarrow> Inr (Some v))
         else Inr None)"

definition parse_json :: "loads \<Rightarrow> string \<Rightarrow> py_error + json" where
  "parse_json loads content =
     (case parse_json_try loads content of
        Inr (Some v) \<Rightarrow> Inr v
      | Inr None \<Rightarrow> Inr (fallback content)
      | Inl e \<Rightarrow> Inr (fallback content))"

subsection \<open>The extractor as the specification words it\<close>

text \<open>The index of the first and of the last occurrence of a character, read off the list
  of all positions where it occurs; and the inclusive substring between two positions.\<close>

definition occurrences :: "char \<Rightarrow> string \<Rightarrow> nat list" where
  "occurrences c s = filter (\<lambda>i. s ! i = c) [0..<length s]"

definition first_index :: "char \<Rightarrow> string \<Rightarrow> nat option" where
  "first_index c s = (case occurrences c s of [] \<Rightarrow> None | i # _ \<Rightarrow> Some i)"

definition last_index :: "char \<Rightarrow> string \<Rightarrow> nat option" where
  "last_index c s = (case rev (occurrences c s) of [] \<Rightarrow> None | i # _ \<Rightarrow> Some i)"

definition substring_incl :: "string \<Rightarrow> nat \<Rightarrow> nat \<Rightarrow> string" where
  "substring_incl s i j = take (Suc j - i) (drop i s)"

definition extractor_spec :: "loads \<Rightarrow> string \<Rightarrow> json" where
  "extractor_spec loads content =
     (case first_index CHR ''{'' content of
        None \<Rightarrow> fallback content
      | Some i \<Rightarrow>
          (case last_index CHR ''}'' content of
             None \<Rightarrow> fallback content
           | Some j \<Rightarrow>
               if i < j
               then (case loads (substring_incl content i j) of
                       Inr v \<Rightarrow> v
                     | Inl e \<Rightarrow> fallback content)
               else fallback content))"

section \<open>The Prompt Builder\<close>

text \<open>An f-string field \<^verbatim>\<open>{n}\<close> of an \<^verbatim>\<open>int\<close> is its decimal rendering \<^verbatim>\<open>str(n)\<close>,
  with a minus sign for a negative number.\<close>

definition digit_char :: "nat \<Rightarrow> char" where
  "digit_char d = ''0123456789'' ! d"

fun str_nat :: "nat \<Rightarrow> string" where
  "str_nat n = (if n < 10 then [digit_char n] else str_nat (n div 10) @ [digit_char (n mod 10)])"

definition str_int :: "int \<Rightarrow> string" where
  "str_int i = (if i < 0 then CHR ''-'' # str_nat (nat (- i)) else str_nat (nat i))"

text \<open>
  \<^verbatim>\<open>json.dumps(topics)\<close> for a list of strings, with the library's defaults
  (\<^verbatim>\<open>ensure_ascii=True\<close>, item separator \<^verbatim>\<open>", "\<close>): every string is quoted, and inside
  it the backslash, the double quote and every character outside the printable ASCII range
  \<^verbatim>\<open>' '..'~'\<close> are escaped (\<^verbatim>\<open>\\\<close>, \<^verbatim>\<open>\"\<close>, \<^verbatim>\<open>\b \f \n \r \t\<close>, otherwise
  \<^verbatim>\<open>\u00xx\<close> in lower-case hexadecimal). \<open>CHR 0x5C\<close> is the backslash and \<open>CHR 0x22\<close> the
  double quote.
\<close>

definition hex_digit :: "nat \<Rightarrow> char" where
  "hex_digit d = ''0123456789abcdef'' ! d"

definition escape_char :: "char \<Rightarrow> string" where
  "escape_char c =
     (if c = CHR 0x5C then [CHR 0x5C, CHR 0x5C]
      else if c = CHR 0x22 then [CHR 0x5C, CHR 0x22]
      else if c = CHR 0x08 then [CHR 0x5C, CHR ''b'']
      else if c = CHR 0x0C then [CHR 0x5C, CHR ''f'']
      else if c = CHR 0x0A then [CHR 0x5C, CHR ''n'']
      else if c = CHR 0x0D then [CHR 0x5C, CHR ''r'']
      else if c = CHR 0x09 then [CHR 0x5C, CHR ''t'']
      else if 32 \<le> (of_char c :: nat) \<and> (of_char c :: nat) \<le> 126 then [c]
      else [CHR 0x5C, CHR ''u'', CHR ''0'', CHR ''0'',
            hex_digit (of_char c div 16), hex_digit (of_char c mod 16)])"

definition encode_basestring_ascii :: "string \<Rightarrow> string" where
  "encode_basestring_ascii s = CHR 0x22 # concat (map escape_char s) @ [CHR 0x22]"

text \<open>\<^verbatim>\<open>sep.join(xs)\<close>.\<close>

fun join :: "string \<Rightarrow> string list \<Rightarrow> string" where
  "join sep [] = []"
| "join sep [x] = x"
| "join sep (x # y # ys) = x @ sep @ join sep (y # ys)"

definition json_dumps :: "string list \<Rightarrow> string" where
  "json_dumps topics = ''['' @ join '', '' (map encode_basestring_ascii topics) @ '']''"

text \<open>
  The five prompts, one row for each line of the f-string in the source: a literal piece
  ends with the line's newline, a field \<^verbatim>\<open>{x}\<close> is the parameter itself, and the doubled
  braces of the f-string are single braces of the text.
\<close>

definition generate_questions_prompt :: \<open>string \<Rightarrow> int \<Rightarrow> string \<Rightarrow> string \<Rightarrow> string\<close> where
  \<open>generate_questions_prompt content num_questions question_type difficulty = concat
    [''Generate exam practice questions from this content.\<newline>'',
     ''\<newline>'',
     ''Content:\<newline>'',
     content, ''\<newline>'',
     ''\<newline>'',
     ''Number of Questions: '', str_int num_questions, ''\<newline>'',
     ''Question Type: '', question_type, ''\<newline>'',
     ''Difficulty: '', difficulty, ''\<newline>'',
     ''\<newline>'',
     ''Return JSON:\<newline>'',
     ''{\<newline>'',
     ''    "topic": "main topic covered",\<newline>'',
     ''    "difficulty": "'', difficulty, ''",\<newline>'',
     ''    "questions": [\<newline>'',
     ''        {\<newline>'',
     ''            "id": 1,\<newline>'',
     ''            "type": "question type",\<newline>'',
     ''            "bloom_level": "cognitive level",\<newline>'',
     ''            "question": "question text",\<newline>'',
     ''            "options": ["A) option", "B) option", "C) option", "D) option"],\<newline>'',
     ''            "correct_answer": "A",\<newline>'',
     ''            "explanation": "why this is correct",\<newline>'',
     ''            "common_mistakes": ["wrong answers students pick"],\<newline>'',
     ''            "hint": "helpful hint",\<newline>'',
     ''            "points": 10\<newline>'',
     ''        }\<newline>'',
     ''    ],\<newline>'',
     ''    "total_points": 50,\<newline>'',
     ''    "time_estimate": "minutes to complete",\<newline>'',
     ''    "study_tips": ["tips based on question topics"]\<newline>'',
     ''}'']\<close>

definition generate_by_bloom_prompt :: \<open>string \<Rightarrow> string \<Rightarrow> string\<close> where
  \<open>generate_by_bloom_prompt topic bloom_level = concat
    [''Generate questions at '', bloom_level, '' cognitive level for this topic.\<newline>'',
     ''\<newline>'',
     ''Topic: '', topic, ''\<newline>'',
     ''Bloom's Level: '', bloom_level, ''\<newline>'',
     ''\<newline>'',
     ''Return JSON:\<newline>'',
     ''{\<newline>'',
     ''    "topic": "'', topic, ''",\<newline>'',
     ''    "bloom_level": "'', bloom_level, ''",\<newline>'',
     ''    "level_description": "what this level tests",\<newline>'',
     ''    "action_verbs": ["verbs used at this level"],\<newline>'',
     ''    "questions": [\<newline>'',
     ''        {\<newline>'',
     ''            "id": 1,\<newline>'',
     ''            "question": "question testing '', bloom_level, ''",\<newline>'',
     ''            "type": "appropriate question type",\<newline>'',
     ''            "answer_key": "expected answer",\<newline>'',
     ''            "grading_rubric": "how to evaluate",\<newline>'',
     ''            "sample_excellent_answer": "what a great answer looks like"\<newline>'',
     ''        }\<newline>'',
     ''    ],\<newline>'',
     ''    "progression": {\<newline>'',
     ''        "prerequisite_level": "level before this",\<newline>'',
     ''        "next_level": "level after this",\<newline>'',
     ''        "how_to_upgrade": "how to make question harder"\<newline>'',
     ''    }\<newline>'',
     ''}'']\<close>

definition create_practice_exam_prompt :: \<open>string list \<Rightarrow> int \<Rightarrow> string\<close> where
  \<open>create_practice_exam_prompt topics duration_minutes = concat
    [''Create a practice exam.\<newline>'',
     ''\<newline>'',
     ''Topics: '', json_dumps topics, ''\<newline>'',
     ''Duration: '', str_int duration_minutes, '' minutes\<newline>'',
     ''\<newline>'',
     ''Return JSON:\<newline>'',
     ''{\<newline>'',
     ''    "exam_info": {\<newline>'',
     ''        "title": "Practice Exam",\<newline>'',
     ''        "topics_covered": '', json_dumps topics, '',\<newline>'',
     ''        "total_time": "'', str_int duration_minutes, '' minutes",\<newline>'',
     ''        "total_points": 100\<newline>'',
     ''    },\<newline>'',
     ''    "instructions": "exam instructions",\<newline>'',
     ''    "sections": [\<newline>'',
     ''        {\<newline>'',
     ''            "section": "Section A: Multiple Choice",\<newline>'',
     ''            "points": 30,\<newline>'',
     ''            "time_allocation": "15 minutes",\<newline>'',
     ''            "questions": [\<newline>'',
     ''                {\<newline>'',
     ''                    "number": 1,\<newline>'',
     ''                    "question": "question text",\<newline>'',
     ''                    "options": ["A)", "B)", "C)", "D)"],\<newline>'',
     ''                    "points": 5,\<newline>'',
     ''                    "answer": "A",\<newline>'',
     ''                    "topic": "which topic"\<newline>'',
     ''                }\<newline>'',
     ''            ]\<newline>'',
     ''        }\<newline>'',
     ''    ],\<newline>'',
     ''    "answer_key": [\<newline>'',
     ''        {\<newline>'',
     ''            "question": 1,\<newline>'',
     ''            "answer": "A",\<newline>'',
     ''            "explanation": "why"\<newline>'',
     ''        }\<newline>'',
     ''    ],\<newline>'',
     ''    "grading_scale": {\<newline>'',
     ''        "A": "90-100",\<newline>'',
     ''        "B": "80-89",\<newline>'',
     ''        "C": "70-79",\<newline>'',
     ''        "D": "60-69",\<newline>'',
     ''        "F": "below 60"\<newline>'',
     ''    },\<newline>'',
     ''    "study_recommendations": ["based on exam content"]\<newline>'',
     ''}'']\<close>

definition generate_flashcards_prompt :: \<open>string \<Rightarrow> int \<Rightarrow> string\<close> where
  \<open>generate_flashcards_prompt content num_cards = concat
    [''Generate study flashcards from this content.\<newline>'',
     ''\<newline>'',
     ''Content:\<newline>'',
     content, ''\<newline>'',
     ''\<newline>'',
     ''Number of Cards: '', str_int num_cards, ''\<newline>'',
     ''\<newline>'',
     ''Return JSON:\<newline>'',
     ''{\<newline>'',
     ''    "topic": "main topic",\<newline>'',
     ''    "flashcards": [\<newline>'',
     ''        {\<newline>'',
     ''            "id": 1,\<newline>'',
     ''            "front": "question/term/prompt",\<newline>'',
     ''            "back": "answer/definition/explanation",\<newline>'',
     ''            "category": "subtopic",\<newline>'',
     ''            "difficulty": "easy/medium/hard",\<newline>'',
     ''            "memory_tip": "how to remember"\<newline>'',
     ''        }\<newline>'',
     ''    ],\<newline>'',
     ''    "study_suggestions": {\<newline>'',
     ''        "spaced_repetition": "recommended schedule",\<newline>'',
     ''        "grouping": "how to organize cards",\<newline>'',
     ''        "review_order": "suggested sequence"\<newline>'',
     ''    }\<newline>'',
     ''}'']\<close>

definition check_answer_prompt :: \<open>string \<Rightarrow> string \<Rightarrow> string \<Rightarrow> string\<close> where
  \<open>check_answer_prompt question student_answer correct_answer = concat
    [''Evaluate this student answer.\<newline>'',
     ''\<newline>'',
     ''Question: '', question, ''\<newline>'',
     ''Student's Answer: '', student_answer, ''\<newline>'',
     ''Expected Answer: '', correct_answer, ''\<newline>'',
     ''\<newline>'',
     ''Return JSON:\<newline>'',
     ''{\<newline>'',
     ''    "question": "'', question, ''",\<newline>'',
     ''    "student_answer": "'', student_answer, ''",\<newline>'',
     ''    "correct_answer": "'', correct_answer, ''",\<newline>'',
     ''    "evaluation": {\<newline>'',
     ''        "is_correct": true,\<newline>'',
     ''        "score": 85,\<newline>'',
     ''        "max_score": 100\<newline>'',
     ''    },\<newline>'',
     ''    "feedback": {\<newline>'',
     ''        "strengths": ["what's good"],\<newline>'',
     ''        "weaknesses": ["what's missing"],\<newline>'',
     ''        "misconceptions": ["any misunderstandings"],\<newline>'',
     ''        "specific_corrections": ["what to fix"]\<newline>'',
     ''    },\<newline>'',
     ''    "improved_answer": "how to write a better answer",\<newline>'',
     ''    "related_concepts": ["concepts to review"],\<newline>'',
     ''    "encouragement": "motivational feedback"\<newline>'',
     ''}'']\<close>

section \<open>The generator and its operations\<close>

text \<open>
  \<^verbatim>\<open>
  def __init__(self, model: str = "llama3.2"):
      self.model = model
      self.question_bank = []
      self.quiz_history = []
  \<close>
\<close>

record generator =
  model :: string
  question_bank :: "json list"
  quiz_history :: "json list"

definition init :: "string \<Rightarrow> generator" where
  "init m = \<lparr>model = m, question_bank = [], quiz_history = []\<rparr>"

text \<open>\<^verbatim>\<open>d.get(key, default)\<close>: only a \<^verbatim>\<open>dict\<close> has the method; on any other value the
  attribute lookup raises \<^verbatim>\<open>AttributeError\<close>.\<close>

fun dict_get :: "json \<Rightarrow> string \<Rightarrow> json \<Rightarrow> py_error + json" where
  "dict_get (JObject kvs) k d = Inr (case map_of kvs k of Some v \<Rightarrow> v | None \<Rightarrow> d)"
| "dict_get _ k d = Inl AttributeError"

text \<open>The items \<^verbatim>\<open>list.extend(x)\<close> appends: the elements of a list, the one-character
  strings of a string, the keys of a dict; any other value is not iterable and
  \<^verbatim>\<open>extend\<close> raises \<^verbatim>\<open>TypeError\<close> before it appends anything.\<close>

fun py_iter :: "json \<Rightarrow> py_error + json list" where
  "py_iter (JArray xs) = Inr xs"
| "py_iter (JString s) = Inr (map (\<lambda>c. JString [c]) s)"
| "py_iter (JObject kvs) = Inr (map (\<lambda>kv. JString (fst kv)) kvs)"
| "py_iter _ = Inl TypeError"

text \<open>
  Every operation returns the value it returns or the exception it raises, together with
  the generator after the call.
  \<^verbatim>\<open>
  response = ollama.chat(model=self.model, messages=[{"role": "user", "content": prompt}])
  result = self._parse_json(response['message']['content'])
  self.question_bank.extend(result.get('questions', []))
  return result
  \<close>
\<close>

definition generate_questions ::
  "chat \<Rightarrow> loads \<Rightarrow> generator \<Rightarrow> string \<Rightarrow> int \<Rightarrow> string \<Rightarrow> string
     \<Rightarrow> (py_error + json) \<times> generator" where
  "generate_questions chat loads self content num_questions question_type difficulty =
     (case chat (model self)
             (generate_questions_prompt content num_questions question_type difficulty) of
        Inl e \<Rightarrow> (Inl e, self)
      | Inr response \<Rightarrow>
          (case parse_json loads response of
             Inl e \<Rightarrow> (Inl e, self)
           | Inr result \<Rightarrow>
               (case dict_get result ''questions'' (JArray []) of
                  Inl e \<Rightarrow> (Inl e, self)
                | Inr qs \<Rightarrow>
                    (case py_iter qs of
                       Inl e \<Rightarrow> (Inl e, self)
                     | Inr items \<Rightarrow>
                         (Inr result,
                          self\<lparr>question_bank := question_bank self @ items\<rparr>)))))"

text \<open>
  \<^verbatim>\<open>
  response = ollama.chat(...)
  return self._parse_json(response['message']['content'])
  \<close>
\<close>

definition generate_by_bloom ::
  "chat \<Rightarrow> loads \<Rightarrow> generator \<Rightarrow> string \<Rightarrow> string \<Rightarrow> (py_error + json) \<times> generator" where
  "generate_by_bloom chat loads self topic bloom_level =
     (case chat (model self) (generate_by_bloom_prompt topic bloom_level) of
        Inl e \<Rightarrow> (Inl e, self)
      | Inr response \<Rightarrow> (parse_json loads response, self))"

text \<open>
  \<^verbatim>\<open>
  response = ollama.chat(...)
  result = self._parse_json(response['message']['content'])
  self.quiz_history.append(result)
  return result
  \<close>
\<close>

definition create_practice_exam ::
  "chat \<Rightarrow> loads \<Rightarrow> generator \<Rightarrow> string list \<Rightarrow> int \<Rightarrow> (py_error + json) \<times> generator" where
  "create_practice_exam chat loads self topics duration_minutes =
     (case chat (model self) (create_practice_exam_prompt topics duration_minutes) of
        Inl e \<Rightarrow> (Inl e, self)
      | Inr response \<Rightarrow>
          (case parse_json loads response of
             Inl e \<Rightarrow> (Inl e, self)
           | Inr result \<Rightarrow>
               (Inr result, self\<lparr>quiz_history := quiz_history self @ [result]\<rparr>)))"

definition generate_flashcards ::
  "chat \<Rightarrow> loads \<Rightarrow> generator \<Rightarrow> string \<Rightarrow> int \<Rightarrow> (py_error + json) \<times> generator" where
  "generate_flashcards chat loads self content num_cards =
     (case chat (model self) (generate_flashcards_prompt content num_cards) of
        Inl e \<Rightarrow> (Inl e, self)
      | Inr response \<Rightarrow> (parse_json loads response, self))"

definition check_answer ::
  "chat \<Rightarrow> loads \<Rightarrow> generator \<Rightarrow> string \<Rightarrow> string \<Rightarrow> string
     \<Rightarrow> (py_error + json) \<times> generator" where
  "check_answer chat loads self question student_answer correct_answer =
     (case chat (model self) (check_answer_prompt question student_answer correct_answer) of
        Inl e \<Rightarrow> (Inl e, self)
      | Inr response \<Rightarrow> (parse_json loads response, self))"

section \<open>The menu loop\<close>

text \<open>
  One iteration of \<^verbatim>\<open>main\<close>'s \<^verbatim>\<open>while True\<close> reads the menu choice and, depending on it,
  further answers; the collaborator answers the one chat call of the iteration. An
  \<open>event\<close> holds all of it: the choice, the pasted lines before the \<^verbatim>\<open>EOF\<close> line, the
  number asked with \<^verbatim>\<open>IntPrompt\<close>, the answers to \<^verbatim>\<open>Prompt.ask\<close> in the order they are
  asked, and the collaborator. What is printed is not part of the model, the exceptions
  that printing the bank can raise are.
\<close>

record event =
  ev_choice :: string
  ev_lines :: "string list"
  ev_number :: int
  ev_ans1 :: string
  ev_ans2 :: string
  ev_ans3 :: string
  ev_chat :: chat

text \<open>\<^verbatim>\<open>s.split(",")\<close> and \<^verbatim>\<open>t.strip()\<close> (white space among the code points below 256).\<close>

fun py_split :: "char \<Rightarrow> string \<Rightarrow> string list" where
  "py_split sep [] = [[]]"
| "py_split sep (c # cs) =
     (if c = sep then [] # py_split sep cs
      else (case py_split sep cs of
              w # ws \<Rightarrow> (c # w) # ws
            | [] \<Rightarrow> [[c]]))"

definition py_isspace :: "char \<Rightarrow> bool" where
  "py_isspace c =
     (let n = (of_char c :: nat)
      in (9 \<le> n \<and> n \<le> 13) \<or> (28 \<le> n \<and> n \<le> 32) \<or> n = 133 \<or> n = 160)"

definition py_strip :: "string \<Rightarrow> string" where
  "py_strip s = rev (dropWhile py_isspace (rev (dropWhile py_isspace s)))"

text \<open>
  \<^verbatim>\<open>
  elif choice == "6":
      if generator.question_bank:
          for i, q in enumerate(generator.question_bank[-5:], 1):
              console.print(f"  {i}: {q.get('question', 'N/A')[:60]}...")
      else:
          console.print("[dim]No questions in bank.[/dim]")
      continue
  \<close>
  \<^verbatim>\<open>x[:60]\<close> is defined on a string and on a list; on any other value the subscript
  raises (\<^verbatim>\<open>TypeError\<close>; for a dict, \<^verbatim>\<open>KeyError\<close> from Python 3.12 on, which the model
  does not tell apart). The result is the values shown, or the first exception.
\<close>

fun py_first60 :: "json \<Rightarrow> py_error + json" where
  "py_first60 (JString s) = Inr (JString (py_slice s 0 60))"
| "py_first60 (JArray xs) = Inr (JArray (py_slice xs 0 60))"
| "py_first60 _ = Inl TypeError"

fun view_rows :: "json list \<Rightarrow> py_error + json list" where
  "view_rows [] = Inr []"
| "view_rows (q # qs) =
     (case dict_get q ''question'' (JString ''N/A'') of
        Inl e \<Rightarrow> Inl e
      | Inr v \<Rightarrow>
          (case py_first60 v of
             Inl e \<Rightarrow> Inl e
           | Inr shown \<Rightarrow>
               (case view_rows qs of
                  Inl e \<Rightarrow> Inl e
                | Inr rest \<Rightarrow> Inr (shown # rest))))"

definition view_bank :: "generator \<Rightarrow> py_error + json list" where
  "view_bank g =
     (if question_bank g \<noteq> []
      then view_rows (py_slice (question_bank g) (- 5) (int (length (question_bank g))))
      else Inr [])"

text \<open>An iteration ends the loop (\<^verbatim>\<open>break\<close>), goes on to the next one, or raises: no
  exception is caught in \<^verbatim>\<open>main\<close>, so a raise ends the program.\<close>

datatype outcome = Continue | Exit | Raised py_error

definition after_call :: "(py_error + json) \<times> generator \<Rightarrow> outcome \<times> generator" where
  "after_call r = (case fst r of Inl e \<Rightarrow> (Raised e, snd r) | Inr result \<Rightarrow> (Continue, snd r))"

definition main_step :: "loads \<Rightarrow> generator \<Rightarrow> event \<Rightarrow> outcome \<times> generator" where
  "main_step loads g ev =
     (if ev_choice ev = ''0'' then (Exit, g)
      else if ev_choice ev = ''6'' then
        (case view_bank g of Inl e \<Rightarrow> (Raised e, g) | Inr shown \<Rightarrow> (Continue, g))
      else if ev_choice ev = ''1'' then
        after_call (generate_questions (ev_chat ev) loads g
          (join ''\<newline>'' (ev_lines ev)) (ev_number ev) (ev_ans1 ev) (ev_ans2 ev))
      else if ev_choice ev = ''2'' then
        after_call (generate_by_bloom (ev_chat ev) loads g (ev_ans1 ev) (ev_ans2 ev))
      else if ev_choice ev = ''3'' then
        after_call (create_practice_exam (ev_chat ev) loads g
          (map py_strip (py_split CHR '','' (ev_ans1 ev))) (ev_number ev))
      else if ev_choice ev = ''4'' then
        after_call (generate_flashcards (ev_chat ev) loads g
          (join ''\<newline>'' (ev_lines ev)) (ev_number ev))
      else if ev_choice ev = ''5'' then
        after_call (check_answer (ev_chat ev) loads g (ev_ans1 ev) (ev_ans2 ev) (ev_ans3 ev))
      else (Continue, g))"

text \<open>The loop over the events of a session, as far as they go: \<open>Continue\<close> with the
  events used up is a loop that waits for the next choice.\<close>

fun main_loop :: "loads \<Rightarrow> generator \<Rightarrow> event list \<Rightarrow> outcome \<times> generator" where
  "main_loop loads g [] = (Continue, g)"
| "main_loop loads g (ev # evs) =
     (case main_step loads g ev of
        (Continue, g') \<Rightarrow> main_loop loads g' evs
      | (Exit, g') \<Rightarrow> (Exit, g')
      | (Raised e, g') \<Rightarrow> (Raised e, g'))"

definition main :: "loads \<Rightarrow> event list \<Rightarrow> outcome \<times> generator" where
  "main loads evs = main_loop loads (init ''llama3.2'') evs"

section \<open>A reference JSON codec\<close>

text \<open>
  To run the model on concrete replies the decoder parameter needs an instance. \<open>ref_loads\<close>
  follows the structure of the standard library's decoder (white space, \<^verbatim>\<open>scanstring\<close>,
  \<^verbatim>\<open>scan_once\<close>, objects whose later duplicate keys win, arrays, the three literals,
  integers, \<^verbatim>\<open>NaN\<close> and the infinities) on the fragment the model can represent: it
  raises on a number with a fraction or an exponent and on a \<^verbatim>\<open>\u\<close> escape above
  \<^verbatim>\<open>00ff\<close>, which the library accepts. It is used only to instantiate the parameter at
  concrete texts of that fragment; the theorems about the program hold for every decoder.
  The recursion is bounded by fuel; every call consumes a character, so the length of the
  text is enough.
\<close>

definition is_ws :: "char \<Rightarrow> bool" where
  "is_ws c = (c = CHR '' '' \<or> c = CHR 0x09 \<or> c = CHR 0x0A \<or> c = CHR 0x0D)"

definition skip_ws :: "string \<Rightarrow> string" where
  "skip_ws s = dropWhile is_ws s"

definition is_digit :: "char \<Rightarrow> bool" where
  "is_digit c = (48 \<le> (of_char c :: nat) \<and> (of_char c :: nat) \<le> 57)"

definition hex_val :: "char \<Rightarrow> nat option" where
  "hex_val c =
     (let n = (of_char c :: nat)
      in if 48 \<le> n \<and> n \<le> 57 then Some (n - 48)
         else if 97 \<le> n \<and> n \<le> 102 then Some (n - 87)
         else if 65 \<le> n \<and> n \<le> 70 then Some (n - 55)
         else None)"

definition hex4 :: "char \<Rightarrow> char \<Rightarrow> char \<Rightarrow> char \<Rightarrow> nat option" where
  "hex4 a b c d =
     (case (hex_val a, hex_val b, hex_val c, hex_val d) of
        (Some x, Some y, Some z, Some w) \<Rightarrow> Some (((x * 16 + y) * 16 + z) * 16 + w)
      | _ \<Rightarrow> None)"

definition unescape :: "char \<Rightarrow> char option" where
  "unescape e =
     (if e = CHR 0x22 then Some (CHR 0x22)
      else if e = CHR 0x5C then Some (CHR 0x5C)
      else if e = CHR ''/'' then Some (CHR ''/'')
      else if e = CHR ''b'' then Some (CHR 0x08)
      else if e = CHR ''f'' then Some (CHR 0x0C)
      else if e = CHR ''n'' then Some (CHR 0x0A)
      else if e = CHR ''r'' then Some (CHR 0x0D)
      else if e = CHR ''t'' then Some (CHR 0x09)
      else None)"

definition cons_fst :: "'a \<Rightarrow> ('a list \<times> 'b) option \<Rightarrow> ('a list \<times> 'b) option" where
  "cons_fst x r = (case r of None \<Rightarrow> None | Some (xs, rest) \<Rightarrow> Some (x # xs, rest))"

text \<open>The text after an opening double quote: the decoded string and the text after the
  closing quote.\<close>

fun scanstring :: "string \<Rightarrow> (string \<times> string) option" where
  "scanstring [] = None"
| "scanstring (c # cs) =
     (if c = CHR 0x22 then Some ([], cs)
      else if c = CHR 0x5C then
        (case cs of
           [] \<Rightarrow> None
         | e # r \<Rightarrow>
             if e = CHR ''u'' then
               (case r of
                  h1 # h2 # h3 # h4 # r' \<Rightarrow>
                    (case hex4 h1 h2 h3 h4 of
                       None \<Rightarrow> None
                     | Some n \<Rightarrow> if n < 256 then cons_fst (char_of n) (scanstring r') else None)
                | _ \<Rightarrow> None)
             else
               (case unescape e of
                  None \<Rightarrow> None
                | Some x \<Rightarrow> cons_fst x (scanstring r)))
      else if (of_char c :: nat) < 32 then None
      else cons_fst c (scanstring cs))"

text \<open>Decimal digits to a number, and the integer at the start of a text
  (\<^verbatim>\<open>-?(0|[1-9][0-9]*)\<close>); \<open>None\<close> as well when a fraction or an exponent follows.\<close>

definition nat_of_digits :: "string \<Rightarrow> nat" where
  "nat_of_digits ds = foldl (\<lambda>a c. a * 10 + (of_char c - 48)) 0 ds"

definition starts_fraction :: "string \<Rightarrow> bool" where
  "starts_fraction s =
     (case s of
        c # d # r \<Rightarrow>
          (c = CHR ''.'' \<and> is_digit d)
          \<or> ((c = CHR ''e'' \<or> c = CHR ''E'')
              \<and> (is_digit d
                  \<or> ((d = CHR ''+'' \<or> d = CHR ''-'') \<and> (case r of x # r' \<Rightarrow> is_digit x | [] \<Rightarrow> False))))
      | _ \<Rightarrow> False)"

definition scan_digits :: "string \<Rightarrow> (nat \<times> string) option" where
  "scan_digits s =
     (case s of
        [] \<Rightarrow> None
      | c # cs \<Rightarrow>
          if c = CHR ''0'' then Some (0, cs)
          else if is_digit c then Some (nat_of_digits (takeWhile is_digit s), dropWhile is_digit s)
          else None)"

definition scan_number :: "string \<Rightarrow> (json \<times> string) option" where
  "scan_number s =
     (case (case s of
              c # cs \<Rightarrow> if c = CHR ''-'' then map_option (\<lambda>(n, r). (- int n, r)) (scan_digits cs)
                        else map_option (\<lambda>(n, r). (int n, r)) (scan_digits s)
            | [] \<Rightarrow> None) of
        Some (i, r) \<Rightarrow> if starts_fraction r then None else Some (JInt i, r)
      | None \<Rightarrow>
          if take 3 s = ''NaN'' then Some (JFloat PyNaN, drop 3 s)
          else if take 8 s = ''Infinity'' then Some (JFloat (PyInf True), drop 8 s)
          else if take 9 s = ''-Infinity'' then Some (JFloat (PyInf False), drop 9 s)
          else None)"

text \<open>\<^verbatim>\<open>dict(pairs)\<close>: a later pair with a key already present replaces the value in
  place.\<close>

fun dict_set :: "string \<Rightarrow> json \<Rightarrow> (string \<times> json) list \<Rightarrow> (string \<times> json) list" where
  "dict_set k v [] = [(k, v)]"
| "dict_set k v (kv # kvs) = (if fst kv = k then (k, v) # kvs else kv # dict_set k v kvs)"

definition dict_of_pairs :: "(string \<times> json) list \<Rightarrow> (string \<times> json) list" where
  "dict_of_pairs ps = foldl (\<lambda>d kv. dict_set (fst kv) (snd kv) d) [] ps"

fun scan_once :: "nat \<Rightarrow> string \<Rightarrow> (json \<times> string) option"
  and object_pairs :: "nat \<Rightarrow> string \<Rightarrow> ((string \<times> json) list \<times> string) option"
  and array_items :: "nat \<Rightarrow> string \<Rightarrow> (json list \<times> string) option"
where
  "scan_once 0 s = None"
| "scan_once (Suc n) s =
     (case s of
        [] \<Rightarrow> None
      | c # cs \<Rightarrow>
          if c = CHR 0x22 then
            (case scanstring cs of None \<Rightarrow> None | Some (str, r) \<Rightarrow> Some (JString str, r))
          else if c = CHR ''{'' then
            (case skip_ws cs of
               [] \<Rightarrow> None
             | d # ds \<Rightarrow>
                 if d = CHR ''}'' then Some (JObject [], ds)
                 else if d = CHR 0x22 then
                   (case object_pairs n ds of
                      None \<Rightarrow> None
                    | Some (ps, r) \<Rightarrow> Some (JObject (dict_of_pairs ps), r))
                 else None)
          else if c = CHR ''['' then
            (case skip_ws cs of
               [] \<Rightarrow> None
             | d # ds \<Rightarrow>
                 if d = CHR '']'' then Some (JArray [], ds)
                 else (case array_items n (d # ds) of
                         None \<Rightarrow> None
                       | Some (xs, r) \<Rightarrow> Some (JArray xs, r)))
          else if take 4 s = ''null'' then Some (JNull, drop 4 s)
          else if take 4 s = ''true'' then Some (JBool True, drop 4 s)
          else if take 5 s = ''false'' then Some (JBool False, drop 5 s)
          else scan_number s)"
| "object_pairs 0 s = None"
| "object_pairs (Suc n) s =
     (case scanstring s of
        None \<Rightarrow> None
      | Some (key, r1) \<Rightarrow>
          (case skip_ws r1 of
             [] \<Rightarrow> None
           | c # r2 \<Rightarrow>
               if c \<noteq> CHR '':'' then None
               else
                 (case scan_once n (skip_ws r2) of
                    None \<Rightarrow> None
                  | Some (v, r3) \<Rightarrow>
                      (case skip_ws r3 of
                         [] \<Rightarrow> None
                       | d # r4 \<Rightarrow>
                           if d = CHR ''}'' then Some ([(key, v)], r4)
                           else if d = CHR '','' then
                             (case skip_ws r4 of
                                [] \<Rightarrow> None
                              | q # r5 \<Rightarrow>
                                  if q = CHR 0x22 then cons_fst (key, v) (object_pairs n r5)
                                  else None)
                           else None))))"
| "array_items 0 s = None"
| "array_items (Suc n) s =
     (case scan_once n s of
        None \<Rightarrow> None
      | Some (v, r1) \<Rightarrow>
          (case skip_ws r1 of
             [] \<Rightarrow> None
           | d # r2 \<Rightarrow>
               if d = CHR '']'' then Some ([v], r2)
               else if d = CHR '','' then cons_fst v (array_items n (skip_ws r2))
               else None))"

text \<open>The encoder with the library's default separators. The decimal rendering of a
  finite float is outside the model: the encoder raises there.\<close>

fun render :: "json \<Rightarrow> string option"
  and render_items :: "json list \<Rightarrow> string list option"
  and render_pairs :: "(string \<times> json) list \<Rightarrow> string list option"
where
  "render JNull = Some ''null''"
| "render (JBool b) = Some (if b then ''true'' else ''false'')"
| "render (JInt i) = Some (str_int i)"
| "render (JFloat f) =
     (case f of
        PyNaN \<Rightarrow> Some ''NaN''
      | PyInf pos \<Rightarrow> Some (if pos then ''Infinity'' else ''-Infinity'')
      | PyFinite m e \<Rightarrow> None)"
| "render (JString s) = Some (encode_basestring_ascii s)"
| "render (JArray xs) =
     (case render_items xs of None \<Rightarrow> None | Some rs \<Rightarrow> Some (''['' @ join '', '' rs @ '']''))"
| "render (JObject kvs) =
     (case render_pairs kvs of None \<Rightarrow> None | Some rs \<Rightarrow> Some (''{'' @ join '', '' rs @ ''}''))"
| "render_items [] = Some []"
| "render_items (x # xs) =
     (case render x of
        None \<Rightarrow> None
      | Some r \<Rightarrow> (case render_items xs of None \<Rightarrow> None | Some rs \<Rightarrow> Some (r # rs)))"
| "render_pairs [] = Some []"
| "render_pairs (kv # kvs) =
     (case render (snd kv) of
        None \<Rightarrow> None
      | Some r \<Rightarrow>
          (case render_pairs kvs of
             None \<Rightarrow> None
           | Some rs \<Rightarrow> Some ((encode_basestring_ascii (fst kv) @ '': '' @ r) # rs)))"



definition ref_loads :: loads where
  "ref_loads s =
     (case scan_once (Suc (length s)) (skip_ws s) of
        None \<Rightarrow> Inl JSONDecodeError
      | Some (v, r) \<Rightarrow> if skip_ws r = [] then Inr v else Inl JSONDecodeError)"

section \<open>Notions used to state the properties\<close>

text \<open>A character that \<^verbatim>\<open>json.dumps\<close> writes as it is: printable ASCII other than the
  double quote and the backslash.\<close>

definition plain_char :: "char \<Rightarrow> bool" where
  "plain_char c =
     (32 \<le> (of_char c :: nat) \<and> (of_char c :: nat) \<le> 126 \<and> c \<noteq> CHR 0x22 \<and> c \<noteq> CHR 0x5C)"

text \<open>Both sequences of the later generator start with the sequences of the earlier one.\<close>

definition grows :: "generator \<Rightarrow> generator \<Rightarrow> bool" where
  "grows g g' =
     (prefix (question_bank g) (question_bank g') \<and> prefix (quiz_history g) (quiz_history g'))"

section \<open>Properties of the string operations\<close>

lemma occurrences_Cons:
  "occurrences c (x # xs) = (if x = c then [0] else []) @ map Suc (occurrences c xs)"
proof -
  have "[0..<length (x # xs)] = 0 # map Suc [0..<length xs]"
    by (metis length_Cons map_Suc_upt upt_conv_Cons zero_less_Suc)
  then show ?thesis
    by (simp add: occurrences_def filter_map o_def del: upt_Suc)
qed

lemma first_index_Nil [simp]: "first_index c [] = None"
  by (simp add: first_index_def occurrences_def)

lemma last_index_Nil [simp]: "last_index c [] = None"
  by (simp add: last_index_def occurrences_def)

lemma first_index_Cons:
  "first_index c (x # xs) = (if x = c then Some 0 else map_option Suc (first_index c xs))"
  by (simp add: first_index_def occurrences_Cons split: list.splits)

lemma last_index_Cons:
  "last_index c (x # xs) =
     (case last_index c xs of
        Some j \<Rightarrow> Some (Suc j)
      | None \<Rightarrow> if x = c then Some 0 else None)"
  by (simp add: last_index_def occurrences_Cons rev_map split: list.splits)

lemma py_find_first_index:
  "py_find s c = (case first_index c s of None \<Rightarrow> -1 | Some i \<Rightarrow> int i)"
  by (induction s) (auto simp: first_index_Cons Let_def split: option.splits)

lemma py_rfind_last_index:
  "py_rfind s c = (case last_index c s of None \<Rightarrow> -1 | Some i \<Rightarrow> int i)"
  by (induction s) (auto simp: last_index_Cons Let_def split: option.splits)

lemma first_index_less: "first_index c s = Some i \<Longrightarrow> i < length s"
  by (induction s arbitrary: i) (auto simp: first_index_Cons split: if_splits)

lemma last_index_less: "last_index c s = Some j \<Longrightarrow> j < length s"
  by (induction s arbitrary: j) (auto simp: last_index_Cons split: if_splits option.splits)

lemma first_index_nth: "first_index c s = Some i \<Longrightarrow> s ! i = c"
  by (induction s arbitrary: i) (auto simp: first_index_Cons split: if_splits)

lemma last_index_nth: "last_index c s = Some j \<Longrightarrow> s ! j = c"
  by (induction s arbitrary: j) (auto simp: last_index_Cons split: if_splits option.splits)

lemma py_slice_substring:
  "i < j \<Longrightarrow> j < length s \<Longrightarrow> py_slice s (int i) (int j + 1) = substring_incl s i j"
proof -
  have "nat (int j + 1) = Suc j" by simp
  moreover assume "i < j" "j < length s"
  ultimately show ?thesis
    by (simp add: py_slice_def py_clip_def substring_incl_def Let_def min_def)
qed

lemma first_index_drop:
  "first_index c s = Some i \<Longrightarrow> drop i s = c # drop (Suc i) s"
  using first_index_less [of c s i] first_index_nth [of c s i]
  by (metis Cons_nth_drop_Suc)

lemma first_last_distinct:
  assumes "first_index CHR ''{'' s = Some i" and "last_index CHR ''}'' s = Some j"
  shows "i \<noteq> j"
proof
  assume "i = j"
  moreover have "s ! i = CHR ''{''" using assms(1) by (rule first_index_nth)
  moreover have "s ! j = CHR ''}''" using assms(2) by (rule last_index_nth)
  ultimately show False by simp
qed

lemma substring_incl_head:
  assumes "first_index c s = Some i" and "i < j"
  shows "substring_incl s i j = c # take (j - i) (drop (Suc i) s)"
proof -
  have "Suc j - i = Suc (j - i)" using assms(2) by simp
  then show ?thesis
    using first_index_drop [OF assms(1)] by (simp add: substring_incl_def)
qed

lemma parse_json_try_cases:
  "parse_json_try loads content = Inr None
   \<or> (\<exists>i j. first_index CHR ''{'' content = Some i \<and> last_index CHR ''}'' content = Some j
          \<and> i < j
          \<and> parse_json_try loads content =
              (case loads (substring_incl content i j) of
                 Inl e \<Rightarrow> Inl e
               | Inr v \<Rightarrow> Inr (Some v)))"
proof (cases "first_index CHR ''{'' content")
  case None
  then show ?thesis by (simp add: parse_json_try_def py_find_first_index)
next
  case (Some i)
  note fi = Some
  show ?thesis
  proof (cases "last_index CHR ''}'' content")
    case None
    with fi show ?thesis
      by (simp add: parse_json_try_def py_find_first_index py_rfind_last_index)
  next
    case (Some j)
    show ?thesis
    proof (cases "i < j")
      case True
      have "py_slice content (int i) (int j + 1) = substring_incl content i j"
        using True last_index_less [OF Some] by (rule py_slice_substring)
      with fi Some True show ?thesis
        by (simp add: parse_json_try_def py_find_first_index py_rfind_last_index)
    next
      case False
      with fi Some first_last_distinct [OF fi Some] show ?thesis
        by (simp add: parse_json_try_def py_find_first_index py_rfind_last_index)
    qed
  qed
qed

lemma py_find_hd: "py_find (c # cs) c = 0"
  by simp


lemma py_rfind_ge: "py_rfind s c \<ge> -1"
  by (induction s) (auto simp: Let_def)


lemma parse_json_Inr: "\<exists>v. parse_json loads content = Inr v"
  by (simp add: parse_json_def split: sum.splits option.splits)

text \<open>The reference decoder yields an object for every text it accepts that begins
  with an opening brace.\<close>

lemma ref_loads_brace:
  "ref_loads s = Inr v \<Longrightarrow> s \<noteq> [] \<Longrightarrow> hd s = CHR ''{'' \<Longrightarrow> is_dict v"
  by (cases s) (auto simp: ref_loads_def skip_ws_def is_ws_def split: option.splits if_splits list.splits)

section \<open>Properties of the prompt pieces\<close>

lemma sublist_concat_mem: "x \<in> set xs \<Longrightarrow> sublist x (concat xs)"
proof -
  assume "x \<in> set xs"
  then obtain ys zs where "xs = ys @ x # zs" by (auto simp: in_set_conv_decomp)
  then have "concat xs = concat ys @ x @ concat zs" by simp
  then show ?thesis by (simp only: sublist_appendI)
qed

lemma escape_char_plain: "plain_char c \<Longrightarrow> escape_char c = [c]"
proof -
  assume p: "plain_char c"
  have "c \<noteq> CHR 0x08" "c \<noteq> CHR 0x0C" "c \<noteq> CHR 0x0A" "c \<noteq> CHR 0x0D" "c \<noteq> CHR 0x09"
    using p unfolding plain_char_def by fastforce+
  with p show ?thesis
    unfolding plain_char_def escape_char_def by (simp only: if_False if_True simp_thms)
qed

lemma concat_escape_plain: "\<forall>c\<in>set t. plain_char c \<Longrightarrow> concat (map escape_char t) = t"
  by (induction t) (simp_all add: escape_char_plain)

lemma sublist_encode_plain:
  "\<forall>c\<in>set t. plain_char c \<Longrightarrow> sublist t (encode_basestring_ascii t)"
proof -
  assume "\<forall>c\<in>set t. plain_char c"
  then have "encode_basestring_ascii t = [CHR 0x22] @ t @ [CHR 0x22]"
    by (simp add: encode_basestring_ascii_def concat_escape_plain)
  then show ?thesis by (simp only: sublist_appendI)
qed

lemma sublist_join_mem: "x \<in> set xs \<Longrightarrow> sublist x (join sep xs)"
proof (induction sep xs rule: join.induct)
  case (1 sep)
  then show ?case by simp
next
  case (2 sep y)
  then show ?case by simp
next
  case (3 sep y z zs)
  show ?case
  proof (cases "x = y")
    case True
    then show ?thesis by simp
  next
    case False
    with 3 have "sublist x (join sep (z # zs))" by simp
    then obtain ps ss where "join sep (z # zs) = ps @ x @ ss" by (auto simp: sublist_def)
    then have "join sep (y # z # zs) = (y @ sep @ ps) @ x @ ss" by simp
    then show ?thesis by (simp only: sublist_appendI)
  qed
qed

lemma sublist_json_dumps_plain:
  assumes "t \<in> set topics" and "\<forall>c\<in>set t. plain_char c"
  shows "sublist t (json_dumps topics)"
proof -
  have "encode_basestring_ascii t \<in> set (map encode_basestring_ascii topics)"
    using assms(1) by simp
  then have "sublist (encode_basestring_ascii t) (join '', '' (map encode_basestring_ascii topics))"
    by (rule sublist_join_mem)
  then obtain ps ss where
    "join '', '' (map encode_basestring_ascii topics) = ps @ encode_basestring_ascii t @ ss"
    by (auto simp: sublist_def)
  then have "json_dumps topics = (''['' @ ps) @ encode_basestring_ascii t @ (ss @ '']'')"
    by (simp add: json_dumps_def)
  then have "sublist (encode_basestring_ascii t) (json_dumps topics)"
    by (simp only: sublist_appendI)
  with sublist_encode_plain [OF assms(2)] show ?thesis
    by (rule sublist_order.order.trans)
qed

lemma gq_pieces:
  "generate_questions_prompt content n qt d \<noteq> []"
  "sublist content (generate_questions_prompt content n qt d)"
  "sublist (str_int n) (generate_questions_prompt content n qt d)"
  "sublist qt (generate_questions_prompt content n qt d)"
  "sublist d (generate_questions_prompt content n qt d)"
  unfolding generate_questions_prompt_def
  by (simp, (rule sublist_concat_mem, simp)+)

lemma bloom_pieces:
  "generate_by_bloom_prompt topic level \<noteq> []"
  "sublist topic (generate_by_bloom_prompt topic level)"
  "sublist level (generate_by_bloom_prompt topic level)"
  unfolding generate_by_bloom_prompt_def
  by (simp, (rule sublist_concat_mem, simp)+)

lemma exam_pieces:
  "create_practice_exam_prompt topics dur \<noteq> []"
  "sublist (json_dumps topics) (create_practice_exam_prompt topics dur)"
  "sublist (str_int dur) (create_practice_exam_prompt topics dur)"
  unfolding create_practice_exam_prompt_def
  by (simp, (rule sublist_concat_mem, simp)+)

lemma flash_pieces:
  "generate_flashcards_prompt content n \<noteq> []"
  "sublist content (generate_flashcards_prompt content n)"
  "sublist (str_int n) (generate_flashcards_prompt content n)"
  unfolding generate_flashcards_prompt_def
  by (simp, (rule sublist_concat_mem, simp)+)

lemma check_pieces:
  "check_answer_prompt q sa ca \<noteq> []"
  "sublist q (check_answer_prompt q sa ca)"
  "sublist sa (check_answer_prompt q sa ca)"
  "sublist ca (check_answer_prompt q sa ca)"
  unfolding check_answer_prompt_def
  by (simp, (rule sublist_concat_mem, simp)+)

section \<open>Properties of the session state\<close>

lemma grows_refl: "grows g g"
  by (simp add: grows_def)

lemma grows_trans: "grows g g' \<Longrightarrow> grows g' g'' \<Longrightarrow> grows g g''"
  unfolding grows_def by (blast intro: prefix_order.trans)

lemma generate_questions_grows:
  "grows g (snd (generate_questions chat loads g content n qt d))"
  by (simp add: generate_questions_def grows_def split: sum.splits)

lemma create_practice_exam_grows:
  "grows g (snd (create_practice_exam chat loads g topics dur))"
  by (simp add: create_practice_exam_def grows_def split: sum.splits)

lemma generate_by_bloom_same: "snd (generate_by_bloom chat loads g topic level) = g"
  by (simp add: generate_by_bloom_def split: sum.splits)

lemma generate_flashcards_same: "snd (generate_flashcards chat loads g content n) = g"
  by (simp add: generate_flashcards_def split: sum.splits)

lemma check_answer_same: "snd (check_answer chat loads g q sa ca) = g"
  by (simp add: check_answer_def split: sum.splits)

lemma snd_after_call: "snd (after_call r) = snd r"
  by (simp add: after_call_def split: sum.splits)

lemma main_step_grows: "grows g (snd (main_step loads g ev))"
  by (simp add: main_step_def snd_after_call grows_refl generate_questions_grows
      create_practice_exam_grows generate_by_bloom_same generate_flashcards_same
      check_answer_same split: sum.splits)

lemma main_loop_grows: "grows g (snd (main_loop loads g evs))"
proof (induction evs arbitrary: g)
  case Nil
  show ?case by (simp add: grows_refl)
next
  case (Cons ev evs)
  obtain out g' where step: "main_step loads g ev = (out, g')" by (cases "main_step loads g ev")
  have g': "grows g g'" using main_step_grows [of g loads ev] step by simp
  show ?case
  proof (cases out)
    case Continue
    with step have "main_loop loads g (ev # evs) = main_loop loads g' evs" by simp
    with grows_trans [OF g' Cons.IH [of g']] show ?thesis by simp
  next
    case Exit
    with step g' show ?thesis by simp
  next
    case (Raised e)
    with step g' show ?thesis by simp
  qed
qed

section \<open>Claims about the Response Extractor\<close>

text \<open>
  Claim C1. For every input text the extractor returns the value decoded from the inclusive
  substring between the first opening brace and the last closing brace exactly when both
  braces exist, the first opening brace is before the last closing brace and the substring
  decodes; in every other case it returns the fallback object whose single key
  \<open>raw_response\<close> holds the whole input text. The code (\<^const>\<open>parse_json\<close>) agrees with
  the specification's wording (\<^const>\<open>extractor_spec\<close>) for every decoder and every text.
\<close>

theorem parse_json_refines_spec:
  "parse_json loads content = Inr (extractor_spec loads content)"
proof (cases "first_index CHR ''{'' content")
  case None
  then show ?thesis
    by (simp add: parse_json_def parse_json_try_def extractor_spec_def py_find_first_index)
next
  case (Some i)
  note fi = Some
  show ?thesis
  proof (cases "last_index CHR ''}'' content")
    case None
    with fi show ?thesis
      by (simp add: parse_json_def parse_json_try_def extractor_spec_def
          py_find_first_index py_rfind_last_index)
  next
    case (Some j)
    have jl: "j < length content" using Some by (rule last_index_less)
    show ?thesis
    proof (cases "i < j")
      case True
      then have "py_slice content (int i) (int j + 1) = substring_incl content i j"
        using jl by (rule py_slice_substring)
      with fi Some True show ?thesis
        by (simp add: parse_json_def parse_json_try_def extractor_spec_def
            py_find_first_index py_rfind_last_index split: sum.splits)
    next
      case False
      have "i \<noteq> j"
      proof
        assume "i = j"
        have "content ! i = CHR ''{''" using fi by (rule first_index_nth)
        moreover have "content ! j = CHR ''}''" using Some by (rule last_index_nth)
        ultimately show False using \<open>i = j\<close> by simp
      qed
      with fi Some False show ?thesis
        by (simp add: parse_json_def parse_json_try_def extractor_spec_def
            py_find_first_index py_rfind_last_index split: sum.splits)
    qed
  qed
qed

text \<open>
  The examples of the specification, on the reference decoder: text around an object
  is dropped, a malformed object, a text without braces and a closing brace before the
  opening one give the fallback object.
\<close>

theorem parse_json_refines_spec_examples:
  \<open>parse_json ref_loads ''noise {"a": 1} trailing'' = Inr (JObject [(''a'', JInt 1)])
   \<and> parse_json ref_loads ''{not valid json}''
       = Inr (JObject [(''raw_response'', JString ''{not valid json}'')])
   \<and> parse_json ref_loads ''no braces at all''
       = Inr (JObject [(''raw_response'', JString ''no braces at all'')])
   \<and> parse_json ref_loads ''} before {'' = Inr (JObject [(''raw_response'', JString ''} before {'')])\<close>
proof -
  have \<open>extractor_spec ref_loads ''noise {"a": 1} trailing'' = JObject [(''a'', JInt 1)]\<close>
    by code_simp
  moreover have \<open>extractor_spec ref_loads ''{not valid json}''
      = JObject [(''raw_response'', JString ''{not valid json}'')]\<close>
    by code_simp
  moreover have \<open>extractor_spec ref_loads ''no braces at all''
      = JObject [(''raw_response'', JString ''no braces at all'')]\<close>
    by code_simp
  moreover have \<open>extractor_spec ref_loads ''} before {''
      = JObject [(''raw_response'', JString ''} before {'')]\<close>
    by code_simp
  ultimately show ?thesis
    by (simp only: parse_json_refines_spec simp_thms)
qed

text \<open>
  Claim C2. The extractor is total and never raises: for every decoder, also one that
  raises, and for every text it returns a value, and that value is either the fallback
  object or a value the decoder returned.
\<close>

theorem parse_json_never_raises:
  "\<exists>v. parse_json loads content = Inr v
       \<and> (v = fallback content \<or> (\<exists>s. loads s = Inr v))"
proof (cases "parse_json_try loads content")
  case (Inl e)
  then show ?thesis by (simp add: parse_json_def)
next
  case (Inr r)
  show ?thesis
  proof (cases r)
    case None
    with Inr show ?thesis by (simp add: parse_json_def)
  next
    case (Some v)
    with Inr have "\<exists>s. loads s = Inr v"
      by (auto simp: parse_json_try_def Let_def split: if_splits sum.splits)
    with Inr Some show ?thesis by (simp add: parse_json_def)
  qed
qed

text \<open>
  Claim C9. Every value the extractor returns is a dict: the substring it decodes begins
  with an opening brace, so a decoder that, like \<^verbatim>\<open>json.loads\<close>, yields an object for
  every accepted text that begins with a brace can only hand back an object, and the
  fallback is an object with one key.
\<close>

theorem parse_json_returns_dict:
  assumes dec: "\<And>s v. loads s = Inr v \<Longrightarrow> s \<noteq> [] \<Longrightarrow> hd s = CHR ''{'' \<Longrightarrow> is_dict v"
  shows "\<exists>v. parse_json loads content = Inr v \<and> is_dict v"
proof -
  from parse_json_try_cases [of loads content]
  consider (none) "parse_json_try loads content = Inr None"
    | (some) i j where "first_index CHR ''{'' content = Some i" "i < j"
        "parse_json_try loads content =
           (case loads (substring_incl content i j) of
              Inl e \<Rightarrow> Inl e
            | Inr v \<Rightarrow> Inr (Some v))"
    by blast
  then show ?thesis
  proof cases
    case none
    then show ?thesis by (simp add: parse_json_def fallback_def)
  next
    case some
    show ?thesis
    proof (cases "loads (substring_incl content i j)")
      case (Inl e)
      with some(3) show ?thesis by (simp add: parse_json_def fallback_def)
    next
      case (Inr v)
      have "substring_incl content i j = CHR ''{'' # take (j - i) (drop (Suc i) content)"
        using some(1,2) by (rule substring_incl_head)
      then have "is_dict v" using dec [OF Inr] by simp
      with some(3) Inr show ?thesis by (simp add: parse_json_def)
    qed
  qed
qed

text \<open>
  The hypothesis of C9 holds of the reference decoder.
\<close>

theorem parse_json_returns_dict_witness:
  \<open>\<exists>v. parse_json ref_loads ''noise {"a": 1} trailing'' = Inr v \<and> is_dict v\<close>
proof (rule parse_json_returns_dict)
  fix s v
  assume "ref_loads s = Inr v" "s \<noteq> []" "hd s = CHR ''{''"
  then show "is_dict v" by (rule ref_loads_brace)
qed



section \<open>Claims about the Prompt Builder\<close>

text \<open>
  Claim C3, as the specification states it: every prompt contains every supplied
  parameter value verbatim. The practice-exam prompt does not: it embeds
  \<^verbatim>\<open>json.dumps(topics)\<close>, which escapes. For the single topic \<^verbatim>\<open>caf\<close> followed by the
  character \<open>0xE9\<close> (e with an acute accent) the prompt holds \<^verbatim>\<open>["caf\u00e9"]\<close> and
  the character \<open>0xE9\<close> occurs nowhere in it.
\<close>

theorem prompt_verbatim_counterexample:
  "\<not> sublist [CHR ''c'', CHR ''a'', CHR ''f'', CHR 0xE9]
       (create_practice_exam_prompt [[CHR ''c'', CHR ''a'', CHR ''f'', CHR 0xE9]] 60)"
proof
  assume "sublist [CHR ''c'', CHR ''a'', CHR ''f'', CHR 0xE9]
       (create_practice_exam_prompt [[CHR ''c'', CHR ''a'', CHR ''f'', CHR 0xE9]] 60)"
  then have "set [CHR ''c'', CHR ''a'', CHR ''f'', CHR 0xE9]
       \<subseteq> set (create_practice_exam_prompt [[CHR ''c'', CHR ''a'', CHR ''f'', CHR 0xE9]] 60)"
    by (rule set_mono_sublist)
  then show False
    by (simp add: create_practice_exam_prompt_def json_dumps_def encode_basestring_ascii_def
        escape_char_def hex_digit_def str_int_def digit_char_def)
qed

text \<open>
  Claim C3, amended. Every prompt is a non-empty string, for all inputs. The prompts of
  generate questions, generate by Bloom level, generate flashcards and check answer
  contain every string parameter verbatim and the decimal rendering of every count. The
  practice-exam prompt contains the decimal rendering of the duration and the JSON
  serialisation of the topic list; it contains a topic verbatim when the topic consists of
  printable ASCII characters other than the double quote and the backslash.
\<close>

theorem prompts_contain_parameters:
  "generate_questions_prompt content n qt d \<noteq> []
   \<and> sublist content (generate_questions_prompt content n qt d)
   \<and> sublist (str_int n) (generate_questions_prompt content n qt d)
   \<and> sublist qt (generate_questions_prompt content n qt d)
   \<and> sublist d (generate_questions_prompt content n qt d)
   \<and> generate_by_bloom_prompt topic level \<noteq> []
   \<and> sublist topic (generate_by_bloom_prompt topic level)
   \<and> sublist level (generate_by_bloom_prompt topic level)
   \<and> create_practice_exam_prompt topics dur \<noteq> []
   \<and> sublist (json_dumps topics) (create_practice_exam_prompt topics dur)
   \<and> sublist (str_int dur) (create_practice_exam_prompt topics dur)
   \<and> (\<forall>t\<in>set topics. (\<forall>c\<in>set t. plain_char c)
         \<longrightarrow> sublist t (create_practice_exam_prompt topics dur))
   \<and> generate_flashcards_prompt content n \<noteq> []
   \<and> sublist content (generate_flashcards_prompt content n)
   \<and> sublist (str_int n) (generate_flashcards_prompt content n)
   \<and> check_answer_prompt q sa ca \<noteq> []
   \<and> sublist q (check_answer_prompt q sa ca)
   \<and> sublist sa (check_answer_prompt q sa ca)
   \<and> sublist ca (check_answer_prompt q sa ca)"
proof -
  have "\<forall>t\<in>set topics. (\<forall>c\<in>set t. plain_char c)
         \<longrightarrow> sublist t (create_practice_exam_prompt topics dur)"
  proof (intro ballI impI)
    fix t
    assume "t \<in> set topics" "\<forall>c\<in>set t. plain_char c"
    then have "sublist t (json_dumps topics)" by (rule sublist_json_dumps_plain)
    then show "sublist t (create_practice_exam_prompt topics dur)"
      using exam_pieces(2) by (rule sublist_order.order.trans)
  qed
  then show ?thesis
    by (simp only: gq_pieces bloom_pieces exam_pieces flash_pieces check_pieces simp_thms)
qed

text \<open>
  The amended claim at concrete inputs, among them empty content.
\<close>

theorem prompts_contain_parameters_witness:
  "list_all plain_char ''Biology''
   \<and> sublist ''Biology'' (create_practice_exam_prompt [''Biology'', ''Cell division''] 45)
   \<and> sublist ''45'' (create_practice_exam_prompt [''Biology'', ''Cell division''] 45)
   \<and> sublist ''medium'' (generate_questions_prompt ''Mitosis has four phases.'' 5 ''Mixed'' ''medium'')
   \<and> sublist '''' (generate_flashcards_prompt '''' 10)
   \<and> generate_flashcards_prompt '''' 10 \<noteq> []"
proof -
  have p: "\<forall>c\<in>set ''Biology''. plain_char c"
    by (simp add: plain_char_def)
  have n: "str_int 45 = ''45''"
    by (simp add: str_int_def digit_char_def)
  note t = prompts_contain_parameters
    [where topics = "[''Biology'', ''Cell division'']" and dur = 45
       and content = "''Mitosis has four phases.''" and n = 5 and qt = "''Mixed''"
       and d = "''medium''"]
  note u = prompts_contain_parameters [where content = "''''" and n = 10]
  from t u p n show ?thesis by (simp add: list_all_iff)
qed

section \<open>Claims about the session state\<close>

text \<open>
  Claim C4. A generate-questions call whose collaborator returns, and whose extracted
  result maps \<open>questions\<close> to a list, appends exactly the elements of that list, in
  order, to the question bank, whose length grows by the length of the list; a result
  without the key \<open>questions\<close>, the fallback object among them, leaves the generator
  unchanged.
\<close>

theorem generate_questions_extends_bank:
  assumes "chat (model self)
             (generate_questions_prompt content num_questions question_type difficulty)
           = Inr response"
    and "parse_json loads response = Inr (JObject kvs)"
  shows "(map_of kvs ''questions'' = Some (JArray qs) \<longrightarrow>
            generate_questions chat loads self content num_questions question_type difficulty
              = (Inr (JObject kvs), self\<lparr>question_bank := question_bank self @ qs\<rparr>)
            \<and> length (question_bank (snd (generate_questions chat loads self content
                  num_questions question_type difficulty)))
                = length (question_bank self) + length qs)
         \<and> (map_of kvs ''questions'' = None \<longrightarrow>
            generate_questions chat loads self content num_questions question_type difficulty
              = (Inr (JObject kvs), self))
         \<and> (JObject kvs = fallback response \<longrightarrow>
            generate_questions chat loads self content num_questions question_type difficulty
              = (Inr (fallback response), self))"
  using assms by (simp add: generate_questions_def fallback_def)

text \<open>
  A reply with two question objects: the bank grows from nothing to these two.
\<close>

theorem generate_questions_extends_bank_witness:
  \<open>generate_questions
     (\<lambda>m p. Inr ''Here you go: {"topic": "T", "questions": [{"question": "Q1"}, {"question": "Q2"}]} Good luck!'')
     ref_loads (init ''llama3.2'') ''Mitosis has four phases.'' 2 ''Mixed'' ''easy''
   = (Inr (JObject [(''topic'', JString ''T''),
                    (''questions'', JArray [JObject [(''question'', JString ''Q1'')],
                                            JObject [(''question'', JString ''Q2'')]])]),
      (init ''llama3.2'')\<lparr>question_bank :=
         [JObject [(''question'', JString ''Q1'')], JObject [(''question'', JString ''Q2'')]]\<rparr>)
   \<and> length (question_bank (snd (generate_questions
        (\<lambda>m p. Inr ''Here you go: {"topic": "T", "questions": [{"question": "Q1"}, {"question": "Q2"}]} Good luck!'')
        ref_loads (init ''llama3.2'') ''Mitosis has four phases.'' 2 ''Mixed'' ''easy''))) = 2\<close>
proof -
  have b: \<open>parse_json ref_loads
      ''Here you go: {"topic": "T", "questions": [{"question": "Q1"}, {"question": "Q2"}]} Good luck!''
    = Inr (JObject [(''topic'', JString ''T''),
                    (''questions'', JArray [JObject [(''question'', JString ''Q1'')],
                                            JObject [(''question'', JString ''Q2'')]])])\<close>
    by code_simp
  note t = generate_questions_extends_bank
    [where chat = \<open>\<lambda>m p. Inr ''Here you go: {"topic": "T", "questions": [{"question": "Q1"}, {"question": "Q2"}]} Good luck!''\<close>
       and loads = ref_loads and self = "init ''llama3.2''"
       and qs = "[JObject [(''question'', JString ''Q1'')], JObject [(''question'', JString ''Q2'')]]",
     OF refl b]
  from t show ?thesis by (simp add: init_def)
qed

text \<open>
  Claim C5. A create-practice-exam call whose collaborator returns appends exactly one
  entry, the whole extracted result, to the quiz history and leaves the question bank
  alone; a call whose collaborator raises changes nothing.
\<close>

theorem create_practice_exam_appends_one:
  "(chat (model self) (create_practice_exam_prompt topics duration_minutes) = Inr response \<longrightarrow>
      (\<exists>result. parse_json loads response = Inr result
         \<and> create_practice_exam chat loads self topics duration_minutes
             = (Inr result, self\<lparr>quiz_history := quiz_history self @ [result]\<rparr>))
      \<and> length (quiz_history (snd (create_practice_exam chat loads self topics duration_minutes)))
          = length (quiz_history self) + 1
      \<and> question_bank (snd (create_practice_exam chat loads self topics duration_minutes))
          = question_bank self)
   \<and> (chat (model self) (create_practice_exam_prompt topics duration_minutes) = Inl e \<longrightarrow>
      create_practice_exam chat loads self topics duration_minutes = (Inl e, self))"
proof -
  obtain result where "parse_json loads response = Inr result"
    using parse_json_Inr by blast
  then show ?thesis by (simp add: create_practice_exam_def)
qed

text \<open>
  A reply without JSON appends the fallback object; a collaborator that raises appends
  nothing.
\<close>

theorem create_practice_exam_appends_one_witness:
  \<open>create_practice_exam (\<lambda>m p. Inr ''Sorry, I cannot help.'') ref_loads (init ''llama3.2'')
     [''Biology''] 60
   = (Inr (JObject [(''raw_response'', JString ''Sorry, I cannot help.'')]),
      (init ''llama3.2'')\<lparr>quiz_history :=
         [JObject [(''raw_response'', JString ''Sorry, I cannot help.'')]]\<rparr>)
   \<and> create_practice_exam (\<lambda>m p. Inl (ChatError ''connection refused'')) ref_loads
       (init ''llama3.2'') [''Biology''] 60
     = (Inl (ChatError ''connection refused''), init ''llama3.2'')\<close>
proof -
  have b: \<open>parse_json ref_loads ''Sorry, I cannot help.''
    = Inr (JObject [(''raw_response'', JString ''Sorry, I cannot help.'')])\<close>
    by code_simp
  note t = create_practice_exam_appends_one
    [where chat = \<open>\<lambda>m p. Inr ''Sorry, I cannot help.''\<close> and loads = ref_loads
       and self = "init ''llama3.2''" and response = "''Sorry, I cannot help.''"]
  note u = create_practice_exam_appends_one
    [where chat = \<open>\<lambda>m p. Inl (ChatError ''connection refused'')\<close> and loads = ref_loads
       and self = "init ''llama3.2''" and e = "ChatError ''connection refused''"]
  from t u b show ?thesis by (simp add: init_def)
qed

text \<open>
  Claim C6. Generate by Bloom level, generate flashcards and check answer return the
  generator as it was: neither the question bank nor the quiz history changes, whatever
  the inputs, the collaborator and the decoder.
\<close>

theorem other_operations_keep_state:
  "snd (generate_by_bloom chat loads self topic bloom_level) = self
   \<and> question_bank (snd (generate_by_bloom chat loads self topic bloom_level))
       = question_bank self
   \<and> quiz_history (snd (generate_by_bloom chat loads self topic bloom_level))
       = quiz_history self
   \<and> snd (generate_flashcards chat loads self content num_cards) = self
   \<and> question_bank (snd (generate_flashcards chat loads self content num_cards))
       = question_bank self
   \<and> quiz_history (snd (generate_flashcards chat loads self content num_cards))
       = quiz_history self
   \<and> snd (check_answer chat loads self question student_answer correct_answer) = self
   \<and> question_bank (snd (check_answer chat loads self question student_answer correct_answer))
       = question_bank self
   \<and> quiz_history (snd (check_answer chat loads self question student_answer correct_answer))
       = quiz_history self"
  by (simp add: generate_by_bloom_def generate_flashcards_def check_answer_def split: sum.splits)

text \<open>
  Claim C7. Append-only session: after any sequence of menu iterations, and after any
  single one, the question bank and the quiz history of the start are prefixes of the
  later ones; the exit choice and the view-bank choice leave the generator as it was.
\<close>

theorem session_append_only:
  "prefix (question_bank g) (question_bank (snd (main_loop loads g evs)))
   \<and> prefix (quiz_history g) (quiz_history (snd (main_loop loads g evs)))
   \<and> prefix (question_bank g) (question_bank (snd (main_step loads g ev)))
   \<and> prefix (quiz_history g) (quiz_history (snd (main_step loads g ev)))
   \<and> main_step loads g (ev\<lparr>ev_choice := ''0''\<rparr>) = (Exit, g)
   \<and> snd (main_step loads g (ev\<lparr>ev_choice := ''6''\<rparr>)) = g"
  using main_loop_grows [of g loads evs] main_step_grows [of g loads ev]
  by (simp add: grows_def main_step_def split: sum.splits)

text \<open>
  Claim C10. The bank insertion does not look at the shape of the \<open>questions\<close> value:
  when it is a string, the bank is extended by the one-character strings of it, and its
  length grows by the length of the string.
\<close>

theorem generate_questions_string_value:
  assumes "chat (model self)
             (generate_questions_prompt content num_questions question_type difficulty)
           = Inr response"
    and "parse_json loads response = Inr (JObject kvs)"
    and "map_of kvs ''questions'' = Some (JString s)"
  shows "generate_questions chat loads self content num_questions question_type difficulty
           = (Inr (JObject kvs),
              self\<lparr>question_bank := question_bank self @ map (\<lambda>c. JString [c]) s\<rparr>)
         \<and> length (question_bank (snd (generate_questions chat loads self content
               num_questions question_type difficulty)))
             = length (question_bank self) + length s"
  using assms by (simp add: generate_questions_def)

text \<open>
  The reply \<^verbatim>\<open>{"questions": "ab"}\<close> puts the two strings \<^verbatim>\<open>a\<close> and \<^verbatim>\<open>b\<close> into the bank.
\<close>

theorem generate_questions_string_value_witness:
  \<open>generate_questions (\<lambda>m p. Inr ''{"questions": "ab"}'')
     ref_loads (init ''llama3.2'') ''Mitosis has four phases.'' 2 ''Mixed'' ''easy''
   = (Inr (JObject [(''questions'', JString ''ab'')]),
      (init ''llama3.2'')\<lparr>question_bank := [JString ''a'', JString ''b'']\<rparr>)\<close>
proof -
  have b: \<open>parse_json ref_loads ''{"questions": "ab"}''
    = Inr (JObject [(''questions'', JString ''ab'')])\<close>
    by code_simp
  note t = generate_questions_string_value
    [where chat = \<open>\<lambda>m p. Inr ''{"questions": "ab"}''\<close>
       and loads = ref_loads and self = "init ''llama3.2''" and s = "''ab''",
     OF refl b]
  from t show ?thesis by (simp add: init_def)
qed

end
